theory Spec2Isabelle
  imports Main "HOL-Library.Word" "HOL-Library.Monad_Syntax"
begin

unbundle bit_operations_syntax

section \<open>Flat byte memory\<close>

text \<open>
  The compiler of \<^verbatim>\<open>libacc/tests/main.cpp\<close> keeps every pointer in a C \<^verbatim>\<open>int\<close> and reads and
  writes its arenas through casts such as \<^verbatim>\<open>*(int *) t\<close> and \<^verbatim>\<open>*(char *) dstk++\<close>.  The model
  keeps that view: an address is an integer, the memory is one flat map from addresses to
  bytes, and a load or store goes wherever the address points, unchecked, as in the source.
  The only backend of the file is the x86 one, whose code runs in the compiling process, so
  a 32-bit access is little-endian and a \<^verbatim>\<open>char\<close> is signed.
\<close>

type_synonym byte = "8 word"
type_synonym memory = "int \<Rightarrow> byte"

definition store8 :: "memory \<Rightarrow> int \<Rightarrow> int \<Rightarrow> memory" where
  "store8 m a v = m(a := word_of_int v)"

definition load8 :: "memory \<Rightarrow> int \<Rightarrow> int" where
  "load8 m a = sint (m a)"

definition store32 :: "memory \<Rightarrow> int \<Rightarrow> int \<Rightarrow> memory" where
  "store32 m a v =
     m(a := word_of_int v,
       a + 1 := word_of_int (drop_bit 8 v),
       a + 2 := word_of_int (drop_bit 16 v),
       a + 3 := word_of_int (drop_bit 24 v))"

definition word32_at :: "memory \<Rightarrow> int \<Rightarrow> 32 word" where
  "word32_at m a =
     ucast (m a) OR push_bit 8 (ucast (m (a + 1))) OR
     push_bit 16 (ucast (m (a + 2))) OR push_bit 24 (ucast (m (a + 3)))"

definition load32 :: "memory \<Rightarrow> int \<Rightarrow> int" where
  "load32 m a = sint (word32_at m a)"

text \<open>\<^verbatim>\<open>calloc(1, size)\<close> returning \<open>base\<close>: the block is zero-filled.\<close>

definition calloc_at :: "int \<Rightarrow> int \<Rightarrow> memory \<Rightarrow> memory" where
  "calloc_at base sz m = (\<lambda>a. if base \<le> a \<and> a < base + sz then 0 else m a)"

text \<open>A NUL-terminated string read from memory; the scan need not end.\<close>

partial_function (option) cstring :: "memory \<Rightarrow> int \<Rightarrow> byte list option" where
  "cstring m a =
     (if m a = 0 then Some []
      else do { r \<leftarrow> cstring m (a + 1); Some (m a # r) })"

fun write_bytes :: "memory \<Rightarrow> int \<Rightarrow> byte list \<Rightarrow> memory" where
  "write_bytes m a [] = m"
| "write_bytes m a (b # bs) = write_bytes (m(a := b)) (a + 1) bs"

section \<open>The code buffer (class CodeBuf)\<close>

record codebuf =
  mem :: memory
  ind :: int
  pProgramBase :: int

definition ALLOC_SIZE :: int where
  "ALLOC_SIZE = 99999"

definition init_codebuf :: "int \<Rightarrow> int \<Rightarrow> 'a codebuf_scheme \<Rightarrow> 'a codebuf_scheme" where
  "init_codebuf base sz s =
     s\<lparr>mem := calloc_at base sz (mem s), pProgramBase := base, ind := base\<rparr>"

text \<open>\<^verbatim>\<open>void ob(int n) { *ind++ = n; }\<close>\<close>

definition ob :: "int \<Rightarrow> 'a codebuf_scheme \<Rightarrow> 'a codebuf_scheme" where
  "ob n s = s\<lparr>mem := store8 (mem s) (ind s) n, ind := ind s + 1\<rparr>"

lemma shift8_smaller: "n \<noteq> 0 \<and> n \<noteq> - 1 \<Longrightarrow> \<bar>(n::int) div 256\<bar> < \<bar>n\<bar>"
  by linarith

text \<open>
  \<^verbatim>\<open>void o(int n) { while (n && n != -1) { *ind++ = n; n = n >> 8; } }\<close>
  The shift of a signed \<^verbatim>\<open>int\<close> is arithmetic: \<open>drop_bit 8\<close> on \<open>int\<close>.
\<close>

function o_emit :: "int \<Rightarrow> 'a codebuf_scheme \<Rightarrow> 'a codebuf_scheme" where
  "o_emit n s = (if n \<noteq> 0 \<and> n \<noteq> -1 then o_emit (drop_bit 8 n) (ob n s) else s)"
  by pat_completeness auto
termination
  by (relation "measure (\<lambda>(n, s). nat \<bar>n\<bar>)") (simp_all add: drop_bit_eq_div shift8_smaller)

declare o_emit.simps [simp del]

text \<open>
  \<^verbatim>\<open>void gsym(int t) { int n; while (t) { n = *(int *) t; *(int *) t = ((int) ind) - t - 4; t = n; } }\<close>
  The walk follows links stored in the output bytes and need not end.
\<close>

partial_function (option) gsym :: "int \<Rightarrow> 'a codebuf_scheme \<Rightarrow> 'a codebuf_scheme option" where
  "gsym t s =
     (if t \<noteq> 0
      then gsym (load32 (mem s) t) (s\<lparr>mem := store32 (mem s) t (ind s - t - 4)\<rparr>)
      else Some s)"

text \<open>
  \<^verbatim>\<open>int oad(int n, int t) { o(n); *(int *) ind = t; t = (int) ind; ind = ind + 4; return t; }\<close>
\<close>

definition oad :: "int \<Rightarrow> int \<Rightarrow> 'a codebuf_scheme \<Rightarrow> int \<times> 'a codebuf_scheme" where
  "oad n t s =
     (let s1 = o_emit n s
      in (ind s1, s1\<lparr>mem := store32 (mem s1) (ind s1) t, ind := ind s1 + 4\<rparr>))"

definition psym :: "int \<Rightarrow> int \<Rightarrow> 'a codebuf_scheme \<Rightarrow> int \<times> 'a codebuf_scheme" where
  "psym n t s = oad n t s"

definition getSize :: "'a codebuf_scheme \<Rightarrow> int" where
  "getSize s = ind s - pProgramBase s"

definition getPC :: "'a codebuf_scheme \<Rightarrow> int" where
  "getPC s = ind s"


section \<open>The x86 instruction emitter (class X86CodeGenerator)\<close>

definition LOCAL :: int where
  "LOCAL = 0x200"

text \<open>
  \<^verbatim>\<open>li\<close>, \<^verbatim>\<open>gcmp\<close> and \<^verbatim>\<open>gmov\<close> are declared \<^verbatim>\<open>int\<close> but return nothing; no caller reads
  their value, so the model returns the state alone.
\<close>

definition li :: "int \<Rightarrow> 'a codebuf_scheme \<Rightarrow> 'a codebuf_scheme" where
  "li t s = snd (oad 0xb8 t s)"

definition gjmp :: "int \<Rightarrow> 'a codebuf_scheme \<Rightarrow> int \<times> 'a codebuf_scheme" where
  "gjmp t s = psym 0xe9 t s"

definition gtst :: "int \<Rightarrow> int \<Rightarrow> 'a codebuf_scheme \<Rightarrow> int \<times> 'a codebuf_scheme" where
  "gtst l t s = psym (0x84 + l) t (o_emit 0x0fc085 s)"

definition gcmp :: "int \<Rightarrow> 'a codebuf_scheme \<Rightarrow> 'a codebuf_scheme" where
  "gcmp t s = o_emit 0xc0 (o_emit (t + 0x90) (o_emit 0x0f (li 0 (o_emit 0xc139 s))))"

definition clearECX :: "'a codebuf_scheme \<Rightarrow> 'a codebuf_scheme" where
  "clearECX s = snd (oad 0xb9 0 s)"

definition pushEAX :: "'a codebuf_scheme \<Rightarrow> 'a codebuf_scheme" where
  "pushEAX s = o_emit 0x50 s"

definition storeEAXIntoPoppedLVal :: "bool \<Rightarrow> 'a codebuf_scheme \<Rightarrow> 'a codebuf_scheme" where
  "storeEAXIntoPoppedLVal isInt s = o_emit (0x0188 + (if isInt then 1 else 0)) (o_emit 0x59 s)"

definition loadEAXIndirect :: "bool \<Rightarrow> 'a codebuf_scheme \<Rightarrow> 'a codebuf_scheme" where
  "loadEAXIndirect isInt s = ob 0 (if isInt then o_emit 0x8b s else o_emit 0xbe0f s)"

definition gmov :: "int \<Rightarrow> int \<Rightarrow> 'a codebuf_scheme \<Rightarrow> 'a codebuf_scheme" where
  "gmov l t s =
     snd (oad (push_bit 7 (if t < LOCAL then 1 else 0) OR 5) t (o_emit (l + 0x83) s))"

definition leaEAX :: "int \<Rightarrow> 'a codebuf_scheme \<Rightarrow> 'a codebuf_scheme" where
  "leaEAX ea s = gmov 10 ea s"

definition storeEAX :: "int \<Rightarrow> 'a codebuf_scheme \<Rightarrow> 'a codebuf_scheme" where
  "storeEAX ea s = gmov 6 ea s"

definition loadEAX :: "int \<Rightarrow> 'a codebuf_scheme \<Rightarrow> 'a codebuf_scheme" where
  "loadEAX ea s = gmov 8 ea s"

definition puzzleAdd :: "int \<Rightarrow> int \<Rightarrow> 'a codebuf_scheme \<Rightarrow> 'a codebuf_scheme" where
  "puzzleAdd n c s = o_emit c (gmov 0 n s)"

definition allocStackSpaceForArgs :: "'a codebuf_scheme \<Rightarrow> int \<times> 'a codebuf_scheme" where
  "allocStackSpaceForArgs s = oad 0xec81 0 s"

definition storeEAToArg :: "int \<Rightarrow> 'a codebuf_scheme \<Rightarrow> 'a codebuf_scheme" where
  "storeEAToArg l s = snd (oad 0x248489 l s)"

definition callForward :: "int \<Rightarrow> 'a codebuf_scheme \<Rightarrow> int \<times> 'a codebuf_scheme" where
  "callForward symbol s = psym 0xe8 symbol s"

definition callRelative :: "int \<Rightarrow> 'a codebuf_scheme \<Rightarrow> 'a codebuf_scheme" where
  "callRelative t s = snd (psym 0xe8 t s)"

definition callIndirect :: "int \<Rightarrow> 'a codebuf_scheme \<Rightarrow> 'a codebuf_scheme" where
  "callIndirect l s = snd (oad 0x2494ff l s)"

definition adjustStackAfterCall :: "int \<Rightarrow> 'a codebuf_scheme \<Rightarrow> 'a codebuf_scheme" where
  "adjustStackAfterCall l s = snd (oad 0xc481 l s)"

section \<open>The compiler state (class compiler)\<close>

text \<open>
  The fields of the class, with the code buffer it owns.  \<open>file_in\<close> (the field \<^verbatim>\<open>file\<close>) and \<open>fpos\<close> are the
  contents and the read position of the \<^verbatim>\<open>FILE*\<close>; \<open>dlsym_tab\<close> is the process's dynamic
  symbol table, which \<^verbatim>\<open>dlsym(0, name)\<close> consults.
\<close>

record compiler = codebuf +
  tok :: int
  tokc :: int
  tokl :: int
  ch :: int
  vars :: int
  rsym :: int
  loc :: int
  glo :: int
  sym_stk :: int
  dstk :: int
  dptr :: int
  dch :: int
  last_id :: int
  file_in :: "byte list"
  fpos :: nat
  dlsym_tab :: "byte list \<Rightarrow> int"

definition TOK_STR_SIZE :: int where "TOK_STR_SIZE = 48"
definition TOK_IDENT :: int where "TOK_IDENT = 0x100"
definition TOK_INT :: int where "TOK_INT = 0x100"
definition TOK_IF :: int where "TOK_IF = 0x120"
definition TOK_ELSE :: int where "TOK_ELSE = 0x138"
definition TOK_WHILE :: int where "TOK_WHILE = 0x160"
definition TOK_BREAK :: int where "TOK_BREAK = 0x190"
definition TOK_RETURN :: int where "TOK_RETURN = 0x1c0"
definition TOK_FOR :: int where "TOK_FOR = 0x1f8"
definition TOK_DEFINE :: int where "TOK_DEFINE = 0x218"
definition TOK_MAIN :: int where "TOK_MAIN = 0x250"
definition TOK_DUMMY :: int where "TOK_DUMMY = 1"
definition TOK_NUM :: int where "TOK_NUM = 2"
definition SYM_FORWARD :: int where "SYM_FORWARD = 0"
definition SYM_DEFINE :: int where "SYM_DEFINE = 1"
definition TAG_TOK :: int where "TAG_TOK = 32"
definition TAG_MACRO :: int where "TAG_MACRO = 2"

text \<open>\<^verbatim>\<open>void pdef(int t) { *(char *) dstk++ = t; }\<close>\<close>

definition pdef :: "int \<Rightarrow> compiler \<Rightarrow> compiler" where
  "pdef t s = s\<lparr>mem := store8 (mem s) (dstk s) t, dstk := dstk s + 1\<rparr>"

text \<open>\<^verbatim>\<open>fgetc(file)\<close>: the next byte as an unsigned value, or \<^verbatim>\<open>EOF\<close> (-1) at the end.\<close>

definition fgetc :: "compiler \<Rightarrow> int \<times> compiler" where
  "fgetc s =
     (if fpos s < length (file_in s) then (uint (file_in s ! fpos s), s\<lparr>fpos := Suc (fpos s)\<rparr>)
      else (-1, s))"

definition inp :: "compiler \<Rightarrow> compiler" where
  "inp s =
     (if dptr s \<noteq> 0 then
        (let s1 = s\<lparr>ch := load8 (mem s) (dptr s), dptr := dptr s + 1\<rparr>
         in if ch s1 = TAG_MACRO then s1\<lparr>dptr := 0, ch := dch s1\<rparr> else s1)
      else (let (c, s1) = fgetc s in s1\<lparr>ch := c\<rparr>))"

text \<open>The character classes of \<^verbatim>\<open>ctype.h\<close> in the C locale; all are false at \<^verbatim>\<open>EOF\<close>.\<close>

definition isspace :: "int \<Rightarrow> bool" where
  "isspace c = (c = 32 \<or> (9 \<le> c \<and> c \<le> 13))"

definition isdigit :: "int \<Rightarrow> bool" where
  "isdigit c = (48 \<le> c \<and> c \<le> 57)"

definition isalnum :: "int \<Rightarrow> bool" where
  "isalnum c = (isdigit c \<or> (65 \<le> c \<and> c \<le> 90) \<or> (97 \<le> c \<and> c \<le> 122))"

definition isid :: "compiler \<Rightarrow> bool" where
  "isid s = (isalnum (ch s) \<or> ch s = 95)"

definition getq :: "compiler \<Rightarrow> compiler" where
  "getq s =
     (if ch s = 92 then (let s1 = inp s in if ch s1 = 110 then s1\<lparr>ch := 10\<rparr> else s1)
      else s)"


section \<open>Library functions the lexer calls\<close>

text \<open>
  \<^verbatim>\<open>strstr(haystack, needle)\<close> on two NUL-terminated strings in memory: the address of the
  first occurrence, or the null pointer.
\<close>

fun find_sub :: "byte list \<Rightarrow> byte list \<Rightarrow> nat option" where
  "find_sub needle [] = (if needle = [] then Some 0 else None)"
| "find_sub needle (h # hs) =
     (if take (length needle) (h # hs) = needle then Some 0
      else map_option Suc (find_sub needle hs))"

definition strstr :: "memory \<Rightarrow> int \<Rightarrow> int \<Rightarrow> int option" where
  "strstr m hay needle =
     do { h \<leftarrow> cstring m hay;
          n \<leftarrow> cstring m needle;
          Some (case find_sub n h of Some i \<Rightarrow> hay + int i | None \<Rightarrow> 0) }"

text \<open>
  \<^verbatim>\<open>strtol(str, 0, 0)\<close> on a string that starts with a digit (the only call): the base is 16
  after \<^verbatim>\<open>0x\<close>, 8 after \<^verbatim>\<open>0\<close>, 10 otherwise; the digits of that base are read as far as
  they go, and a value past \<^verbatim>\<open>LONG_MAX\<close> of the 32-bit target is clamped to it.
\<close>

definition digit_val :: "byte \<Rightarrow> int" where
  "digit_val c =
     (let v = uint c in
      if 48 \<le> v \<and> v \<le> 57 then v - 48
      else if 97 \<le> v \<and> v \<le> 122 then v - 87
      else if 65 \<le> v \<and> v \<le> 90 then v - 55
      else 99)"

fun strtol_digits :: "int \<Rightarrow> int \<Rightarrow> byte list \<Rightarrow> int" where
  "strtol_digits base acc [] = acc"
| "strtol_digits base acc (c # cs) =
     (if digit_val c < base then strtol_digits base (acc * base + digit_val c) cs else acc)"

definition strtol :: "byte list \<Rightarrow> int" where
  "strtol str =
     min (2 ^ 31 - 1)
       (case str of
          c0 # c1 # c2 # rest \<Rightarrow>
            if c0 = 48 \<and> (c1 = 120 \<or> c1 = 88) \<and> digit_val c2 < 16
            then strtol_digits 16 0 (c2 # rest)
            else if c0 = 48 then strtol_digits 8 0 str else strtol_digits 10 0 str
        | _ \<Rightarrow> (case str of c0 # _ \<Rightarrow>
                    if c0 = 48 then strtol_digits 8 0 str else strtol_digits 10 0 str
                  | [] \<Rightarrow> 0))"

section \<open>The lexer\<close>

text \<open>The loops of \<^verbatim>\<open>next()\<close> that read characters; none is bounded by the source.\<close>

text \<open>\<^verbatim>\<open>while (isid()) { pdef(ch); inp(); }\<close>\<close>

partial_function (option) ident_loop :: "compiler \<Rightarrow> compiler option" where
  "ident_loop s = (if isid s then ident_loop (inp (pdef (ch s) s)) else Some s)"

text \<open>\<^verbatim>\<open>while (ch != '\n') { pdef(ch); inp(); }\<close>\<close>

partial_function (option) define_line :: "compiler \<Rightarrow> compiler option" where
  "define_line s = (if ch s \<noteq> 10 then define_line (inp (pdef (ch s) s)) else Some s)"

text \<open>\<^verbatim>\<open>while (ch != '*') inp();\<close>\<close>

partial_function (option) comment_star :: "compiler \<Rightarrow> compiler option" where
  "comment_star s = (if ch s \<noteq> 42 then comment_star (inp s) else Some s)"

text \<open>\<^verbatim>\<open>while (ch) { while (ch != '*') inp(); inp(); if (ch == '/') ch = 0; }\<close>\<close>

partial_function (option) comment_body :: "compiler \<Rightarrow> compiler option" where
  "comment_body s =
     (if ch s \<noteq> 0 then
        do { s1 \<leftarrow> comment_star s;
             let s2 = inp s1;
             comment_body (if ch s2 = 47 then s2\<lparr>ch := 0\<rparr> else s2) }
      else Some s)"

text \<open>
  The operator table: entries of a base character, a follow character (\<^verbatim>\<open>@\<close> for none), the
  operator code in base 64 and, as the closing character, the precedence level.
\<close>

definition optab :: "int list" where
  "optab = map of_char
     (''++#m--%am*@R<^1c/@%[_[H3c%@%[_[H3c+@.B#d-@%:_^BKd<<Z/03e>>`/03e<=0f>=/f'' @
      ''<@.f>@1f==&g!='' @ [CHR 0x27] @ ''g&&k||#l&@.BCh^@.BSi|@.B+j~@/%Yd!@&d*@b'')"

text \<open>
  \<^verbatim>\<open>tokc = 0; while ((tokl = *t++ - 'b') < 0) tokc = tokc * 64 + tokl + 64;\<close>
  The first equation is the end of the string, which no entry of the table reaches.
\<close>

fun optab_code :: "int \<Rightarrow> int list \<Rightarrow> int \<times> int \<times> int list" where
  "optab_code c [] = (c, - 98, [])"
| "optab_code c (x # t) =
     (if x - 98 < 0 then optab_code (c * 64 + (x - 98) + 64) t else (c, x - 98, t))"

lemma optab_code_length: "length (snd (snd (optab_code c t))) \<le> length t"
  by (induction c t rule: optab_code.induct) auto

text \<open>
  \<^verbatim>\<open>while (l = *t++) { a = *t++; ...; if (l == tok & (a == ch | a == '@')) { if (a == ch) { inp(); tok = TOK_DUMMY; } break; } }\<close>
\<close>

function optab_scan :: "int list \<Rightarrow> compiler \<Rightarrow> compiler" where
  "optab_scan [] s = s"
| "optab_scan [l] s = s"
| "optab_scan (l # a # t) s =
     (let s1 = s\<lparr>tokc := fst (optab_code 0 t), tokl := fst (snd (optab_code 0 t))\<rparr>
      in if l = tok s1 \<and> (a = ch s1 \<or> a = 64)
         then (if a = ch s1 then (inp s1)\<lparr>tok := TOK_DUMMY\<rparr> else s1)
         else optab_scan (snd (snd (optab_code 0 t))) s1)"
  by pat_completeness auto
termination
  by (relation "measure (\<lambda>(t, s). length t)")
     (auto simp add: le_imp_less_Suc optab_code_length le_SucI)

declare optab_scan.simps [simp del]

text \<open>
  \<^verbatim>\<open>next()\<close>.  Its leading loop \<^verbatim>\<open>while (isspace(ch) | ch == '#') { ... inp(); }\<close> stands before
  anything else in the function, so one round of the loop followed by the rest of the
  function is one round followed by a fresh call: the first branch below.
\<close>

partial_function (option) next_tok :: "compiler \<Rightarrow> compiler option" where
  "next_tok s =
     (if isspace (ch s) \<or> ch s = 35 then
        (if ch s = 35 then
           do { s1 \<leftarrow> next_tok (inp s);
                s2 \<leftarrow> (if tok s1 = TOK_DEFINE then
                         do { s' \<leftarrow> next_tok s1;
                              let s'' = pdef TAG_TOK s';
                              Some (s''\<lparr>mem := store32 (store32 (mem s'') (tok s'') SYM_DEFINE)
                                                   (tok s'' + 4) (dstk s'')\<rparr>) }
                       else Some s1);
                s3 \<leftarrow> define_line s2;
                next_tok (inp (pdef TAG_MACRO (pdef (ch s3) s3))) }
         else next_tok (inp s))
      else
        (let s0 = s\<lparr>tokl := 0, tok := ch s\<rparr> in
         if isid s0 then
           do { let s1 = pdef TAG_TOK s0;
                s2 \<leftarrow> ident_loop (s1\<lparr>last_id := dstk s1\<rparr>);
                if isdigit (tok s2) then
                  do { str \<leftarrow> cstring (mem s2) (last_id s2);
                       Some (s2\<lparr>tokc := strtol str, tok := TOK_NUM\<rparr>) }
                else
                  do { let m1 = store8 (mem s2) (dstk s2) TAG_TOK;
                       p \<leftarrow> strstr m1 (sym_stk s2) (last_id s2 - 1);
                       let s3 = s2\<lparr>mem := store8 m1 (dstk s2) 0,
                                   tok := (p - sym_stk s2) * 8 + TOK_IDENT\<rparr>;
                       if tok s3 > TOK_DEFINE then
                         (let s4 = s3\<lparr>tok := vars s3 + tok s3\<rparr> in
                          if load32 (mem s4) (tok s4) = SYM_DEFINE then
                            next_tok (inp (s4\<lparr>dptr := load32 (mem s4) (tok s4 + 4),
                                             dch := ch s4\<rparr>))
                          else Some s4)
                       else Some s3 } }
         else
           (let s1 = inp s0 in
            if tok s1 = 39 then
              (let s2 = getq (s1\<lparr>tok := TOK_NUM\<rparr>) in Some (inp (inp (s2\<lparr>tokc := ch s2\<rparr>))))
            else if tok s1 = 47 \<and> ch s1 = 42 then
              do { s2 \<leftarrow> comment_body (inp s1); next_tok (inp s2) }
            else Some (optab_scan optab s1))))"


section \<open>Fatal errors\<close>

text \<open>
  \<^verbatim>\<open>error(fmt, ...)\<close> prints \<^verbatim>\<open>ftell(file)\<close>, the message and a newline, then calls
  \<^verbatim>\<open>exit(1)\<close>: the process ends there.  Its only caller is \<^verbatim>\<open>skip\<close>, with the message
  \<^verbatim>\<open>'%c' expected\<close>.
\<close>

datatype fatal = Fatal (exit_code: int) (offset: nat) (expected: int)

definition error :: "int \<Rightarrow> compiler \<Rightarrow> fatal" where
  "error c s = Fatal 1 (fpos s) c"

text \<open>
  A parser function ends in one of three ways: it never returns (\<open>None\<close>), the process
  exits in \<^verbatim>\<open>error\<close> (\<open>Some (Inl e)\<close>), or it returns (\<open>Some (Inr x)\<close>).
\<close>

type_synonym 'a outcome = "(fatal + 'a) option"

abbreviation and_then :: "'a outcome \<Rightarrow> ('a \<Rightarrow> 'b outcome) \<Rightarrow> 'b outcome" where
  "and_then r f \<equiv> Option.bind r (\<lambda>v. case v of Inl e \<Rightarrow> Some (Inl e) | Inr x \<Rightarrow> f x)"

definition returns :: "'a \<Rightarrow> 'a outcome" where
  "returns x = Some (Inr x)"

definition lexed :: "'a option \<Rightarrow> 'a outcome" where
  "lexed r = map_option Inr r"

definition skip :: "int \<Rightarrow> compiler \<Rightarrow> compiler outcome" where
  "skip c s = (if tok s \<noteq> c then Some (Inl (error c s)) else lexed (next_tok s))"


section \<open>The parser and code generator\<close>

text \<open>
  The loops of the parser that only call the lexer.  In \<^verbatim>\<open>unary\<close>, the characters of a string
  literal: \<^verbatim>\<open>while (ch != '\"') { getq(); *(char *) glo++ = ch; inp(); }\<close>
\<close>

partial_function (option) string_loop :: "compiler \<Rightarrow> compiler option" where
  "string_loop s =
     (if ch s \<noteq> 34 then
        (let s1 = getq s;
             s2 = s1\<lparr>mem := store8 (mem s1) (glo s1) (ch s1), glo := glo s1 + 1\<rparr>
         in string_loop (inp s2))
      else Some s)"

text \<open>
  In \<^verbatim>\<open>decl\<close>, the names after \<^verbatim>\<open>int\<close>:
  \<^verbatim>\<open>while (tok != ';') { if (l) { loc = loc + 4; *(int *) tok = -loc; } else { *(int *) tok = glo; glo = glo + 4; } next(); if (tok == ',') next(); }\<close>
\<close>

partial_function (option) decl_vars :: "bool \<Rightarrow> compiler \<Rightarrow> compiler option" where
  "decl_vars l s =
     (if tok s \<noteq> 59 then
        do { let s1 = (if l then (let s' = s\<lparr>loc := loc s + 4\<rparr>
                                 in s'\<lparr>mem := store32 (mem s') (tok s') (- loc s')\<rparr>)
                       else s\<lparr>mem := store32 (mem s) (tok s) (glo s), glo := glo s + 4\<rparr>);
             s2 \<leftarrow> next_tok s1;
             s3 \<leftarrow> (if tok s2 = 44 then next_tok s2 else Some s2);
             decl_vars l s3 }
      else Some s)"

text \<open>
  In \<^verbatim>\<open>decl\<close>, the parameters of a function:
  \<^verbatim>\<open>while (tok != ')') { *(int *) tok = a; a = a + 4; next(); if (tok == ',') next(); }\<close>
\<close>

partial_function (option) decl_params :: "int \<Rightarrow> compiler \<Rightarrow> compiler option" where
  "decl_params a s =
     (if tok s \<noteq> 41 then
        do { let s1 = s\<lparr>mem := store32 (mem s) (tok s) a\<rparr>;
             s2 \<leftarrow> next_tok s1;
             s3 \<leftarrow> (if tok s2 = 44 then next_tok s2 else Some s2);
             decl_params (a + 4) s3 }
      else Some s)"

text \<open>
  In \<^verbatim>\<open>unary\<close>, the type of a cast, after the \<^verbatim>\<open>*\<close>:
  \<^verbatim>\<open>skip('('); t = tok; next(); next(); if (tok == '*') { skip('*'); skip(')'); skip('('); skip(')'); t = 0; } skip(')');\<close>
\<close>

definition cast_type :: "compiler \<Rightarrow> (int \<times> compiler) outcome" where
  "cast_type s =
     and_then (skip 40 s) (\<lambda>s1.
     let t = tok s1 in
     and_then (lexed (next_tok s1)) (\<lambda>s2.
     and_then (lexed (next_tok s2)) (\<lambda>s3.
     and_then
       (if tok s3 = 42 then
          and_then (skip 42 s3) (\<lambda>s4.
          and_then (skip 41 s4) (\<lambda>s5.
          and_then (skip 40 s5) (\<lambda>s6.
          and_then (skip 41 s6) (\<lambda>s7. returns (0, s7)))))
        else returns (t, s3))
       (\<lambda>(t', s8). and_then (skip 41 s8) (\<lambda>s9. returns (t', s9))))))"

text \<open>
  In \<^verbatim>\<open>unary\<close>, the end of a call, after the arguments:
  \<^verbatim>\<open>*(int *) a = l; next(); if (!n) { t = t + 4; *(int *) t = pGen->callForward(*(int *) t); } else if (n == 1) { pGen->callIndirect(l); l = l + 4; } else { pGen->callRelative(n - codeBuf.getPC() - 5); } if (l) pGen->adjustStackAfterCall(l);\<close>
\<close>

definition call_end :: "int \<Rightarrow> int \<Rightarrow> int \<Rightarrow> int \<Rightarrow> compiler \<Rightarrow> compiler option" where
  "call_end n t a l s =
     do { s1 \<leftarrow> next_tok (s\<lparr>mem := store32 (mem s) a l\<rparr>);
          let (l', s2) =
                (if n = 0 then
                   (let (site, s') = callForward (load32 (mem s1) (t + 4)) s1
                    in (l, s'\<lparr>mem := store32 (mem s') (t + 4) site\<rparr>))
                 else if n = 1 then (l + 4, callIndirect l s1)
                 else (l, callRelative (n - getPC s1 - 5) s1));
          Some (if l' \<noteq> 0 then adjustStackAfterCall l' s2 else s2) }"

text \<open>
  In \<^verbatim>\<open>block\<close>, the statement \<^verbatim>\<open>*(int *) l = gjmp(*(int *) l);\<close> of \<^verbatim>\<open>break\<close>.  The argument
  \<^verbatim>\<open>l\<close> of \<^verbatim>\<open>block\<close> is either the address of the local \<^verbatim>\<open>a\<close> of the enclosing loop's call
  (\<^verbatim>\<open>block((int) &a)\<close>) or the null pointer (\<^verbatim>\<open>block(0)\<close> in \<^verbatim>\<open>decl\<close>).  The locals of the
  parser are not in the flat memory; the model passes the value of that local, \<open>head\<close>, in
  and out, and \<open>null\<close> says that the pointer is null: then the word read and written is the one
  at address 0.
\<close>

definition break_jmp :: "bool \<Rightarrow> int \<Rightarrow> compiler \<Rightarrow> int \<times> compiler" where
  "break_jmp null head s =
     (if null then
        (let (site, s1) = gjmp (load32 (mem s) 0) s
         in (head, s1\<lparr>mem := store32 (mem s1) 0 site\<rparr>))
      else gjmp head s)"


text \<open>
  The recursive descent: \<^verbatim>\<open>unary\<close>, \<^verbatim>\<open>sum\<close>, \<^verbatim>\<open>expr\<close>, \<^verbatim>\<open>test_expr\<close>, \<^verbatim>\<open>block\<close> and \<^verbatim>\<open>decl\<close>,
  with the loops of \<^verbatim>\<open>unary\<close> (the arguments of a call), \<^verbatim>\<open>sum\<close> (the operators of one
  level) and \<^verbatim>\<open>block\<close> (the statements of a compound) as functions of their own.  Each body
  is written first, with the functions it calls as parameters (\<open>unary'\<close>, \<open>expr'\<close>, ...); the
  recursion that ties them together follows.

  \<^verbatim>\<open>unary\<close> first emits the operand, which fixes its locals \<open>n\<close> and \<open>t\<close>, then the call
  if a parenthesis follows.
\<close>

definition unary_body ::
  "(int \<Rightarrow> compiler \<Rightarrow> compiler outcome) \<Rightarrow> (compiler \<Rightarrow> compiler outcome) \<Rightarrow>
   (int \<Rightarrow> compiler \<Rightarrow> (int \<times> compiler) outcome) \<Rightarrow> int \<Rightarrow> compiler \<Rightarrow> compiler outcome" where
  "unary_body unary' expr' call_args' l s =
     and_then
       (if tok s = 34 then
          (let s1 = li (glo s) s in
           and_then (lexed (string_loop s1)) (\<lambda>s2.
           let s3 = s2\<lparr>mem := store8 (mem s2) (glo s2) 0\<rparr>;
               s4 = s3\<lparr>glo := (glo s3 + 4) AND (- 4)\<rparr>
           in and_then (lexed (next_tok (inp s4))) (\<lambda>s5. returns (1, 0, s5))))
        else
          (let c = tokl s; a = tokc s; t = tok s in
           and_then (lexed (next_tok s)) (\<lambda>s1.
           if t = TOK_NUM then returns (1, t, li a s1)
           else if c = 2 then
             and_then (unary' 0 s1) (\<lambda>s2.
             let s3 = clearECX s2
             in returns (1, t, if t = 33 then gcmp a s3 else o_emit a s3))
           else if t = 40 then
             and_then (expr' s1) (\<lambda>s2.
             and_then (skip 41 s2) (\<lambda>s3. returns (1, t, s3)))
           else if t = 42 then
             and_then (cast_type s1) (\<lambda>(t', s2).
             and_then (unary' 0 s2) (\<lambda>s3.
             if tok s3 = 61 then
               and_then (lexed (next_tok s3)) (\<lambda>s4.
               and_then (expr' (pushEAX s4)) (\<lambda>s5.
               returns (1, t', storeEAXIntoPoppedLVal (t' = TOK_INT) s5)))
             else if t' \<noteq> 0 then returns (1, t', loadEAXIndirect (t' = TOK_INT) s3)
             else returns (1, t', s3)))
           else if t = 38 then
             and_then (lexed (next_tok (leaEAX (load32 (mem s1) (tok s1)) s1))) (\<lambda>s2.
             returns (1, t, s2))
           else
             and_then
               (if load32 (mem s1) t = 0
                then lexed (map_option (\<lambda>name. (dlsym_tab s1 name, s1))
                                       (cstring (mem s1) (last_id s1)))
                else returns (load32 (mem s1) t, s1))
               (\<lambda>(n, s2).
                if tok s2 = 61 \<and> l AND 1 \<noteq> 0 then
                  and_then (lexed (next_tok s2)) (\<lambda>s3.
                  and_then (expr' s3) (\<lambda>s4. returns (n, t, storeEAX n s4)))
                else if tok s2 \<noteq> 40 then
                  (let s3 = loadEAX n s2 in
                   if tokl s3 = 11 then
                     and_then (lexed (next_tok (puzzleAdd n (tokc s3) s3))) (\<lambda>s4.
                     returns (n, t, s4))
                   else returns (n, t, s3))
                else returns (n, t, s2)))))
       (\<lambda>(n, t, s1).
          if tok s1 = 40 then
            (let s2 = (if n = 1 then pushEAX s1 else s1);
                 (a, s3) = allocStackSpaceForArgs s2
             in and_then (lexed (next_tok s3)) (\<lambda>s4.
                and_then (call_args' 0 s4) (\<lambda>(l', s5).
                lexed (call_end n t a l' s5))))
          else returns s1)"

text \<open>
  \<^verbatim>\<open>while (tok != ')') { expr(); pGen->storeEAToArg(l); if (tok == ',') next(); l = l + 4; }\<close>
\<close>

definition call_args_body ::
  "(compiler \<Rightarrow> compiler outcome) \<Rightarrow> (int \<Rightarrow> compiler \<Rightarrow> (int \<times> compiler) outcome) \<Rightarrow>
   int \<Rightarrow> compiler \<Rightarrow> (int \<times> compiler) outcome" where
  "call_args_body expr' call_args' l s =
     (if tok s \<noteq> 41 then
        and_then (expr' s) (\<lambda>s1.
        let s2 = storeEAToArg l s1 in
        and_then (if tok s2 = 44 then lexed (next_tok s2) else returns s2) (\<lambda>s3.
        call_args' (l + 4) s3))
      else returns (l, s))"

text \<open>
  \<^verbatim>\<open>sum(l)\<close>: \<^verbatim>\<open>if (l-- == 1) unary(1); else { sum(l); a = 0; while (l == tokl) { ... } if (a && l > 8) { ... } }\<close>
  with \<open>l\<close> decremented on both paths.  The local \<open>t\<close> is unset before the loop; it is read
  only when \<open>a\<close> is not 0, which a round of the loop has to have made it.
\<close>

definition sum_body ::
  "(int \<Rightarrow> compiler \<Rightarrow> compiler outcome) \<Rightarrow> (int \<Rightarrow> compiler \<Rightarrow> compiler outcome) \<Rightarrow>
   (int \<Rightarrow> int \<Rightarrow> int \<Rightarrow> compiler \<Rightarrow> (int \<times> int \<times> compiler) outcome) \<Rightarrow>
   int \<Rightarrow> compiler \<Rightarrow> compiler outcome" where
  "sum_body unary' sum_prec' sum_loop' l s =
     (if l = 1 then unary' 1 s
      else
        and_then (sum_prec' (l - 1) s) (\<lambda>s1.
        and_then (sum_loop' (l - 1) 0 0 s1) (\<lambda>(a, t, s2).
        if a \<noteq> 0 \<and> l - 1 > 8 then
          (let (a1, s3) = gtst t a s2;
               s4 = li (t XOR 1) s3;
               s5 = snd (gjmp 5 s4)
           in and_then (lexed (gsym a1 s5)) (\<lambda>s6. returns (li t s6)))
        else returns s2)))"

text \<open>
  \<^verbatim>\<open>while (l == tokl) { n = tok; t = tokc; next(); if (l > 8) { a = gtst(t, a); sum(l); } else { o(0x50); sum(l); o(0x59); if (l == 4 | l == 5) { gcmp(t); } else { o(t); if (n == '%') o(0x92); } } }\<close>
\<close>

definition sum_loop_body ::
  "(int \<Rightarrow> compiler \<Rightarrow> compiler outcome) \<Rightarrow>
   (int \<Rightarrow> int \<Rightarrow> int \<Rightarrow> compiler \<Rightarrow> (int \<times> int \<times> compiler) outcome) \<Rightarrow>
   int \<Rightarrow> int \<Rightarrow> int \<Rightarrow> compiler \<Rightarrow> (int \<times> int \<times> compiler) outcome" where
  "sum_loop_body sum_prec' sum_loop' l a t s =
     (if l = tokl s then
        (let n = tok s; t' = tokc s in
         and_then (lexed (next_tok s)) (\<lambda>s1.
         if l > 8 then
           (let (a', s2) = gtst t' a s1 in
            and_then (sum_prec' l s2) (\<lambda>s3. sum_loop' l a' t' s3))
         else
           and_then (sum_prec' l (o_emit 0x50 s1)) (\<lambda>s2.
           let s3 = o_emit 0x59 s2;
               s4 = (if l = 4 \<or> l = 5 then gcmp t' s3
                     else (let s' = o_emit t' s3 in if n = 37 then o_emit 0x92 s' else s'))
           in sum_loop' l a t' s4)))
      else returns (a, t, s))"

definition test_expr_body ::
  "(compiler \<Rightarrow> compiler outcome) \<Rightarrow> compiler \<Rightarrow> (int \<times> compiler) outcome" where
  "test_expr_body expr' s = and_then (expr' s) (\<lambda>s1. returns (gtst 0 0 s1))"

text \<open>
  \<^verbatim>\<open>block(l)\<close>, with the pointer \<open>l\<close> as \<open>null\<close> and \<open>head\<close> (see \<open>break_jmp\<close>): the result
  carries the value of the pointed-to local after the call.  A loop passes the address of its
  own \<open>a\<close>, so the call for its body gets \<open>False\<close> and \<open>a\<close>, and the loop's own \<open>head\<close> comes
  back as it went in.
\<close>

definition block_body ::
  "(compiler \<Rightarrow> compiler outcome) \<Rightarrow> (compiler \<Rightarrow> (int \<times> compiler) outcome) \<Rightarrow>
   (bool \<Rightarrow> int \<Rightarrow> compiler \<Rightarrow> (int \<times> compiler) outcome) \<Rightarrow>
   (bool \<Rightarrow> int \<Rightarrow> compiler \<Rightarrow> (int \<times> compiler) outcome) \<Rightarrow>
   (bool \<Rightarrow> compiler \<Rightarrow> compiler outcome) \<Rightarrow>
   bool \<Rightarrow> int \<Rightarrow> compiler \<Rightarrow> (int \<times> compiler) outcome" where
  "block_body expr' test_expr' block' block_seq' decl' null head s =
     (if tok s = TOK_IF then
        and_then (lexed (next_tok s)) (\<lambda>s1.
        and_then (skip 40 s1) (\<lambda>s2.
        and_then (test_expr' s2) (\<lambda>(a, s3).
        and_then (skip 41 s3) (\<lambda>s4.
        and_then (block' null head s4) (\<lambda>(head1, s5).
        if tok s5 = TOK_ELSE then
          and_then (lexed (next_tok s5)) (\<lambda>s6.
          let (n, s7) = gjmp 0 s6 in
          and_then (lexed (gsym a s7)) (\<lambda>s8.
          and_then (block' null head1 s8) (\<lambda>(head2, s9).
          and_then (lexed (gsym n s9)) (\<lambda>s10. returns (head2, s10)))))
        else and_then (lexed (gsym a s5)) (\<lambda>s6. returns (head1, s6)))))))
      else if tok s = TOK_WHILE \<or> tok s = TOK_FOR then
        (let t = tok s in
         and_then (lexed (next_tok s)) (\<lambda>s1.
         and_then (skip 40 s1) (\<lambda>s2.
         and_then
           (if t = TOK_WHILE then
              (let n = getPC s2 in
               and_then (test_expr' s2) (\<lambda>(a, s3). returns (n, a, s3)))
            else
              and_then (if tok s2 \<noteq> 59 then expr' s2 else returns s2) (\<lambda>s3.
              and_then (skip 59 s3) (\<lambda>s4.
              let n = getPC s4 in
              and_then (if tok s4 \<noteq> 59 then test_expr' s4 else returns (0, s4)) (\<lambda>(a, s5).
              and_then (skip 59 s5) (\<lambda>s6.
              if tok s6 \<noteq> 41 then
                (let (t', s7) = gjmp 0 s6 in
                 and_then (expr' s7) (\<lambda>s8.
                 let s9 = snd (gjmp (n - getPC s8 - 5) s8) in
                 and_then (lexed (gsym t' s9)) (\<lambda>s10. returns (t' + 4, a, s10))))
              else returns (n, a, s6))))))
           (\<lambda>(n, a, s3).
            and_then (skip 41 s3) (\<lambda>s4.
            and_then (block' False a s4) (\<lambda>(a', s5).
            let s6 = snd (gjmp (n - getPC s5 - 5) s5) in
            and_then (lexed (gsym a' s6)) (\<lambda>s7. returns (head, s7))))))))
      else if tok s = 123 then
        and_then (lexed (next_tok s)) (\<lambda>s1.
        and_then (decl' True s1) (\<lambda>s2.
        and_then (block_seq' null head s2) (\<lambda>(head1, s3).
        and_then (lexed (next_tok s3)) (\<lambda>s4. returns (head1, s4)))))
      else
        and_then
          (if tok s = TOK_RETURN then
             and_then (lexed (next_tok s)) (\<lambda>s1.
             and_then (if tok s1 \<noteq> 59 then expr' s1 else returns s1) (\<lambda>s2.
             let (r, s3) = gjmp (rsym s2) s2 in returns (head, s3\<lparr>rsym := r\<rparr>)))
           else if tok s = TOK_BREAK then
             and_then (lexed (next_tok s)) (\<lambda>s1. returns (break_jmp null head s1))
           else if tok s \<noteq> 59 then and_then (expr' s) (\<lambda>s1. returns (head, s1))
           else returns (head, s))
          (\<lambda>(head1, s1). and_then (skip 59 s1) (\<lambda>s2. returns (head1, s2))))"

text \<open>\<^verbatim>\<open>while (tok != '}') block(l);\<close>\<close>

definition block_seq_body ::
  "(bool \<Rightarrow> int \<Rightarrow> compiler \<Rightarrow> (int \<times> compiler) outcome) \<Rightarrow>
   (bool \<Rightarrow> int \<Rightarrow> compiler \<Rightarrow> (int \<times> compiler) outcome) \<Rightarrow>
   bool \<Rightarrow> int \<Rightarrow> compiler \<Rightarrow> (int \<times> compiler) outcome" where
  "block_seq_body block' block_seq' null head s =
     (if tok s \<noteq> 125 then
        and_then (block' null head s) (\<lambda>(head1, s1). block_seq' null head1 s1)
      else returns (head, s))"

text \<open>
  \<^verbatim>\<open>decl(l)\<close> is one loop, \<^verbatim>\<open>while (tok == TOK_INT | tok != -1 & !l) { ... }\<close>, from its first
  line to its last, so a round of it ends in a fresh call.  \<^verbatim>\<open>compiler::oad\<close> has no
  \<^verbatim>\<open>return\<close>; \<^verbatim>\<open>a = oad(0xec81, 0)\<close> is modelled with the value of the call it wraps, the
  patch site, which is what the later \<^verbatim>\<open>*(int *) a = loc\<close> needs.
\<close>

definition decl_body ::
  "(bool \<Rightarrow> int \<Rightarrow> compiler \<Rightarrow> (int \<times> compiler) outcome) \<Rightarrow>
   (bool \<Rightarrow> compiler \<Rightarrow> compiler outcome) \<Rightarrow> bool \<Rightarrow> compiler \<Rightarrow> compiler outcome" where
  "decl_body block' decl' l s =
     (if tok s = TOK_INT \<or> (tok s \<noteq> - 1 \<and> \<not> l) then
        (if tok s = TOK_INT then
           and_then (lexed (next_tok s)) (\<lambda>s1.
           and_then (lexed (decl_vars l s1)) (\<lambda>s2.
           and_then (skip 59 s2) (\<lambda>s3. decl' l s3)))
         else
           and_then (lexed (gsym (load32 (mem s) (tok s + 4)) s)) (\<lambda>s1.
           let s2 = s1\<lparr>mem := store32 (mem s1) (tok s1) (getPC s1)\<rparr> in
           and_then (lexed (next_tok s2)) (\<lambda>s3.
           and_then (skip 40 s3) (\<lambda>s4.
           and_then (lexed (decl_params 8 s4)) (\<lambda>s5.
           and_then (lexed (next_tok s5)) (\<lambda>s6.
           let s7 = s6\<lparr>loc := 0, rsym := 0\<rparr>;
               s8 = o_emit 0xe58955 s7;
               (a, s9) = oad 0xec81 0 s8
           in and_then (block' True 0 s9) (\<lambda>(_, s10).
              and_then (lexed (gsym (rsym s10) s10)) (\<lambda>s11.
              let s12 = o_emit 0xc3c9 s11;
                  s13 = s12\<lparr>mem := store32 (mem s12) a (loc s12)\<rparr>
              in decl' l s13))))))))
      else returns s)"

text \<open>
  The depth of the calls follows the input, so the recursion is tied with fuel: \<open>parser k\<close>
  holds the functions that may nest calls \<open>k\<close> deep, and with no fuel left a call is \<open>None\<close>.
\<close>

record parser_fns =
  unary_f :: "int \<Rightarrow> compiler \<Rightarrow> compiler outcome"
  call_args_f :: "int \<Rightarrow> compiler \<Rightarrow> (int \<times> compiler) outcome"
  sum_f :: "int \<Rightarrow> compiler \<Rightarrow> compiler outcome"
  sum_loop_f :: "int \<Rightarrow> int \<Rightarrow> int \<Rightarrow> compiler \<Rightarrow> (int \<times> int \<times> compiler) outcome"
  expr_f :: "compiler \<Rightarrow> compiler outcome"
  test_expr_f :: "compiler \<Rightarrow> (int \<times> compiler) outcome"
  block_f :: "bool \<Rightarrow> int \<Rightarrow> compiler \<Rightarrow> (int \<times> compiler) outcome"
  block_seq_f :: "bool \<Rightarrow> int \<Rightarrow> compiler \<Rightarrow> (int \<times> compiler) outcome"
  decl_f :: "bool \<Rightarrow> compiler \<Rightarrow> compiler outcome"

primrec parser :: "nat \<Rightarrow> parser_fns" where
  "parser 0 =
     \<lparr>unary_f = (\<lambda>l s. None), call_args_f = (\<lambda>l s. None), sum_f = (\<lambda>l s. None),
      sum_loop_f = (\<lambda>l a t s. None), expr_f = (\<lambda>s. None), test_expr_f = (\<lambda>s. None),
      block_f = (\<lambda>null head s. None), block_seq_f = (\<lambda>null head s. None),
      decl_f = (\<lambda>l s. None)\<rparr>"
| "parser (Suc k) =
     \<lparr>unary_f = unary_body (unary_f (parser k)) (expr_f (parser k)) (call_args_f (parser k)),
      call_args_f = call_args_body (expr_f (parser k)) (call_args_f (parser k)),
      sum_f = sum_body (unary_f (parser k)) (sum_f (parser k)) (sum_loop_f (parser k)),
      sum_loop_f = sum_loop_body (sum_f (parser k)) (sum_loop_f (parser k)),
      expr_f = sum_f (parser k) 11,
      test_expr_f = test_expr_body (expr_f (parser k)),
      block_f = block_body (expr_f (parser k)) (test_expr_f (parser k)) (block_f (parser k))
                  (block_seq_f (parser k)) (decl_f (parser k)),
      block_seq_f = block_seq_body (block_f (parser k)) (block_seq_f (parser k)),
      decl_f = decl_body (block_f (parser k)) (decl_f (parser k))\<rparr>"

definition unary :: "nat \<Rightarrow> int \<Rightarrow> compiler \<Rightarrow> compiler outcome" where
  "unary k = unary_f (parser k)"

definition call_args :: "nat \<Rightarrow> int \<Rightarrow> compiler \<Rightarrow> (int \<times> compiler) outcome" where
  "call_args k = call_args_f (parser k)"

definition sum_prec :: "nat \<Rightarrow> int \<Rightarrow> compiler \<Rightarrow> compiler outcome" where
  "sum_prec k = sum_f (parser k)"

definition sum_loop ::
  "nat \<Rightarrow> int \<Rightarrow> int \<Rightarrow> int \<Rightarrow> compiler \<Rightarrow> (int \<times> int \<times> compiler) outcome" where
  "sum_loop k = sum_loop_f (parser k)"

definition expr :: "nat \<Rightarrow> compiler \<Rightarrow> compiler outcome" where
  "expr k = expr_f (parser k)"

definition test_expr :: "nat \<Rightarrow> compiler \<Rightarrow> (int \<times> compiler) outcome" where
  "test_expr k = test_expr_f (parser k)"

definition block :: "nat \<Rightarrow> bool \<Rightarrow> int \<Rightarrow> compiler \<Rightarrow> (int \<times> compiler) outcome" where
  "block k = block_f (parser k)"

definition block_seq :: "nat \<Rightarrow> bool \<Rightarrow> int \<Rightarrow> compiler \<Rightarrow> (int \<times> compiler) outcome" where
  "block_seq k = block_seq_f (parser k)"

definition decl :: "nat \<Rightarrow> bool \<Rightarrow> compiler \<Rightarrow> compiler outcome" where
  "decl k = decl_f (parser k)"

section \<open>Compiling, running and dumping\<close>

text \<open>
  What the process gives a compilation: the addresses its four \<^verbatim>\<open>calloc\<close> calls return, the
  memory before them and the dynamic symbol table.
\<close>

record process =
  code_base :: int
  sym_base :: int
  glo_base :: int
  vars_base :: int
  mem0 :: memory
  symbols :: "byte list \<Rightarrow> int"

definition keyword_str :: "byte list" where
  "keyword_str = map of_char '' int if else while break return for define main ''"

text \<open>
  \<^verbatim>\<open>compile(in)\<close>: \<^verbatim>\<open>cleanup(); clear();\<close> leave every field 0, then the arenas are allocated
  and the keywords copied in (\<^verbatim>\<open>strcpy\<close> writes the closing NUL too), and the declarations
  are parsed.  The only \<^verbatim>\<open>return\<close> is \<^verbatim>\<open>return 0\<close>.
\<close>

definition compile_init :: "process \<Rightarrow> byte list \<Rightarrow> compiler" where
  "compile_init p input =
     (let s0 = \<lparr>mem = mem0 p, ind = 0, pProgramBase = 0, tok = 0, tokc = 0, tokl = 0, ch = 0,
                vars = 0, rsym = 0, loc = 0, glo = 0, sym_stk = 0, dstk = 0, dptr = 0, dch = 0,
                last_id = 0, file_in = [], fpos = 0, dlsym_tab = symbols p\<rparr>;
          s1 = init_codebuf (code_base p) ALLOC_SIZE s0;
          s2 = s1\<lparr>file_in := input\<rparr>;
          s3 = s2\<lparr>mem := calloc_at (sym_base p) ALLOC_SIZE (mem s2), sym_stk := sym_base p\<rparr>;
          s4 = s3\<lparr>mem := write_bytes (mem s3) (sym_stk s3) (keyword_str @ [0]),
                  dstk := sym_stk s3 + TOK_STR_SIZE\<rparr>;
          s5 = s4\<lparr>mem := calloc_at (glo_base p) ALLOC_SIZE (mem s4), glo := glo_base p\<rparr>;
          s6 = s5\<lparr>mem := calloc_at (vars_base p) ALLOC_SIZE (mem s5), vars := vars_base p\<rparr>
      in s6)"

definition compile :: "nat \<Rightarrow> process \<Rightarrow> byte list \<Rightarrow> (int \<times> compiler) outcome" where
  "compile k p input =
     and_then (lexed (next_tok (inp (compile_init p input)))) (\<lambda>s.
     and_then (decl k False s) (\<lambda>s'. returns (0, s')))"

text \<open>\<^verbatim>\<open>dump(out)\<close> writes the bytes from the base of the code buffer to its cursor.\<close>

definition dump :: "compiler \<Rightarrow> byte list" where
  "dump s = map (\<lambda>i. mem s (pProgramBase s + int i)) [0 ..< nat (getSize s)]"

section \<open>The command-line driver\<close>

text \<open>
  What \<^verbatim>\<open>main\<close> and \<^verbatim>\<open>error\<close> print on \<^verbatim>\<open>stderr\<close>, one constructor per format string.
\<close>

datatype message =
    Expected_filename_after_T
  | Unrecognized_flag string
  | Could_not_open_input_file string
  | Compile_failed int
  | Could_not_open_output_file string
  | Could_not_find_function_main
  | Expected_at nat int

text \<open>
  The surroundings of the process: the process itself, the bytes of standard input, the files
  \<^verbatim>\<open>fopen(name, "r")\<close> can open with their contents, the names \<^verbatim>\<open>fopen(name, "w")\<close> can open,
  and what a call of the machine code at an address with \<^verbatim>\<open>(argc, argv)\<close> returns, if it returns.
  How the process ends: the value \<^verbatim>\<open>main\<close> returns or \<^verbatim>\<open>exit\<close> gets, the messages printed, and the
  file written in \<^verbatim>\<open>-T\<close> mode.
\<close>

record os =
  proc :: process
  stdin_bytes :: "byte list"
  readable :: "string \<Rightarrow> byte list option"
  writable :: "string \<Rightarrow> bool"
  native_call :: "memory \<Rightarrow> int \<Rightarrow> string list \<Rightarrow> int option"

record exit_state =
  status :: int
  stderr :: "message list"
  written :: "(string \<times> byte list) option"

text \<open>
  The loop over the arguments, \<^verbatim>\<open>for (i = 1; i < argc; i++) { ... }\<close>: \<^verbatim>\<open>-T\<close> takes the next
  argument as the output file, any other flag ends the process with 3, the first other
  argument is the input file and a second one ends the loop.
\<close>

function args_loop ::
  "string list \<Rightarrow> nat \<Rightarrow> bool \<Rightarrow> string option \<Rightarrow> string option \<Rightarrow>
   exit_state + (bool \<times> string option \<times> string option \<times> nat)" where
  "args_loop argv i doTest inFile outFile =
     (if i < length argv then
        (if take 1 (argv ! i) = ''-'' then
           (if take 1 (drop 1 (argv ! i)) = ''T'' then
              (if i + 1 \<ge> length argv
               then Inl \<lparr>status = 2, stderr = [Expected_filename_after_T], written = None\<rparr>
               else args_loop argv (i + 2) True inFile (Some (argv ! (i + 1))))
            else Inl \<lparr>status = 3, stderr = [Unrecognized_flag (argv ! i)], written = None\<rparr>)
         else if inFile = None then args_loop argv (i + 1) doTest (Some (argv ! i)) outFile
         else Inr (doTest, inFile, outFile, i))
      else Inr (doTest, inFile, outFile, i))"
  by pat_completeness auto
termination
  by (relation "measure (\<lambda>(argv, i, _). length argv - i)") auto

declare args_loop.simps [simp del]

text \<open>
  \<^verbatim>\<open>run(argc, argv)\<close>: the word at \<^verbatim>\<open>vars + TOK_MAIN\<close> is the entry point; when it is 0 the
  result is -1, otherwise the result of the call.
\<close>

definition run :: "os \<Rightarrow> string list \<Rightarrow> compiler \<Rightarrow> exit_state option" where
  "run os args s =
     (let aMain = load32 (mem s) (vars s + TOK_MAIN) in
      if aMain = 0
      then Some \<lparr>status = - 1, stderr = [Could_not_find_function_main], written = None\<rparr>
      else map_option (\<lambda>r. \<lparr>status = r, stderr = [], written = None\<rparr>)
             (native_call os (mem s) aMain args))"

text \<open>
  \<^verbatim>\<open>main(argc, argv)\<close>.  The fuel is that of the parser.  A fatal error inside \<^verbatim>\<open>compile\<close>
  ends the process there, with the exit code of \<^verbatim>\<open>error\<close>.
\<close>

definition main :: "nat \<Rightarrow> os \<Rightarrow> string list \<Rightarrow> exit_state option" where
  "main k os argv =
     (case args_loop argv 1 False None None of
        Inl e \<Rightarrow> Some e
      | Inr (doTest, inFile, outFile, i) \<Rightarrow>
          (case (case inFile of None \<Rightarrow> Some (stdin_bytes os) | Some name \<Rightarrow> readable os name) of
             None \<Rightarrow>
               Some \<lparr>status = 1, stderr = [Could_not_open_input_file (the inFile)], written = None\<rparr>
           | Some input \<Rightarrow>
               (case compile k (proc os) input of
                  None \<Rightarrow> None
                | Some (Inl e) \<Rightarrow>
                    Some \<lparr>status = exit_code e, stderr = [Expected_at (offset e) (expected e)],
                          written = None\<rparr>
                | Some (Inr (compileResult, s)) \<Rightarrow>
                    if compileResult \<noteq> 0
                    then Some \<lparr>status = 6, stderr = [Compile_failed compileResult], written = None\<rparr>
                    else if doTest then
                      (if writable os (the outFile)
                       then Some \<lparr>status = 0, stderr = [], written = Some (the outFile, dump s)\<rparr>
                       else Some \<lparr>status = 5, stderr = [Could_not_open_output_file (the outFile)],
                                  written = None\<rparr>)
                    else run os ((case inFile of None \<Rightarrow> ''stdin'' | Some name \<Rightarrow> name) # drop i argv) s)))"

section \<open>Notions used to state the properties\<close>

text \<open>
  The bytes \<^verbatim>\<open>o(n)\<close> is meant to write: the low byte of \<open>n\<close>, then those of \<open>n >> 8\<close>, until
  what is left is 0 or -1.  \<open>emitted bs\<close> is the code buffer after the bytes \<open>bs\<close> went to
  the cursor.
\<close>

function o_bytes :: "int \<Rightarrow> byte list" where
  "o_bytes n = (if n \<noteq> 0 \<and> n \<noteq> -1 then word_of_int n # o_bytes (drop_bit 8 n) else [])"
  by pat_completeness auto
termination
  by (relation "measure (\<lambda>n. nat \<bar>n\<bar>)") (simp_all add: drop_bit_eq_div shift8_smaller)

declare o_bytes.simps [simp del]

definition emitted :: "byte list \<Rightarrow> 'a codebuf_scheme \<Rightarrow> 'a codebuf_scheme" where
  "emitted bs s = s\<lparr>mem := write_bytes (mem s) (ind s) bs, ind := ind s + int (length bs)\<rparr>"


text \<open>
  A backpatch chain: \<open>chain m t xs\<close> says that, in memory \<open>m\<close>, the list threaded from the
  head \<open>t\<close> visits the patch sites \<open>xs\<close> in this order, each site holding the address of the
  next, the last one holding 0.  \<open>apart xs\<close> says that no two sites of \<open>xs\<close> share a byte of
  their four.  \<open>patch_all pc m xs\<close> is \<open>m\<close> with the displacement to \<open>pc\<close> stored at each
  site.
\<close>

fun chain :: "memory \<Rightarrow> int \<Rightarrow> int list \<Rightarrow> bool" where
  "chain m t [] = (t = 0)"
| "chain m t (x # xs) = (t = x \<and> x \<noteq> 0 \<and> chain m (load32 m x) xs)"

fun apart :: "int list \<Rightarrow> bool" where
  "apart [] = True"
| "apart (x # xs) = ((\<forall>y \<in> set xs. 4 \<le> \<bar>y - x\<bar>) \<and> apart xs)"

fun patch_all :: "int \<Rightarrow> memory \<Rightarrow> int list \<Rightarrow> memory" where
  "patch_all pc m [] = m"
| "patch_all pc m (x # xs) = patch_all pc (store32 m x (pc - x - 4)) xs"


text \<open>
  The capacity invariant of the code buffer, and the same for the symbol heap: the cursor lies
  between the base and the base plus \<^verbatim>\<open>ALLOC_SIZE\<close>.
\<close>

definition within_capacity :: "'a codebuf_scheme \<Rightarrow> bool" where
  "within_capacity s = (pProgramBase s \<le> ind s \<and> ind s \<le> pProgramBase s + ALLOC_SIZE)"

definition heap_within_capacity :: "compiler \<Rightarrow> bool" where
  "heap_within_capacity s = (sym_stk s \<le> dstk s \<and> dstk s \<le> sym_stk s + ALLOC_SIZE)"

text \<open>An outcome that, when it is a fatal error, carries the exit code 1.\<close>

definition exits_1 :: "'a outcome \<Rightarrow> bool" where
  "exits_1 r = (case r of Some (Inl e) \<Rightarrow> exit_code e = 1 | _ \<Rightarrow> True)"


text \<open>
  A process and its surroundings for the examples: four arenas far apart in a memory of
  zeros, no dynamic symbols, three files, and machine code that returns \<open>v\<close>.
\<close>

definition demo_process :: process where
  "demo_process =
     \<lparr>code_base = 0x10000, sym_base = 0x100000, glo_base = 0x40000, vars_base = 0x80000,
      mem0 = (\<lambda>_. 0), symbols = (\<lambda>_. 0)\<rparr>"

definition demo_os :: "int \<Rightarrow> os" where
  "demo_os v =
     \<lparr>proc = demo_process, stdin_bytes = [],
      readable = (\<lambda>name. if name = ''one.c'' then Some (map of_char ''main(){return 1;}'')
                          else if name = ''bad.c'' then Some (map of_char ''main)'')
                          else None),
      writable = (\<lambda>name. name = ''out.bin''),
      native_call = (\<lambda>m a args. Some v)\<rparr>"

section \<open>Unfolding the recursion\<close>

lemma unary_0: "unary 0 l s = None"
  by (simp add: unary_def)

lemma unary_Suc: "unary (Suc k) l s = unary_body (unary k) (expr k) (call_args k) l s"
  by (simp add: unary_def expr_def call_args_def)

lemma call_args_0: "call_args 0 l s = None"
  by (simp add: call_args_def)

lemma call_args_Suc: "call_args (Suc k) l s = call_args_body (expr k) (call_args k) l s"
  by (simp add: expr_def call_args_def)

lemma sum_prec_0: "sum_prec 0 l s = None"
  by (simp add: sum_prec_def)

lemma sum_prec_Suc:
  "sum_prec (Suc k) l s = sum_body (unary k) (sum_prec k) (sum_loop k) l s"
  by (simp add: unary_def sum_prec_def sum_loop_def)

lemma sum_loop_0: "sum_loop 0 l a t s = None"
  by (simp add: sum_loop_def)

lemma sum_loop_Suc:
  "sum_loop (Suc k) l a t s = sum_loop_body (sum_prec k) (sum_loop k) l a t s"
  by (simp add: sum_prec_def sum_loop_def)

lemma expr_0: "expr 0 s = None"
  by (simp add: expr_def)

lemma expr_Suc: "expr (Suc k) s = sum_prec k 11 s"
  by (simp add: expr_def sum_prec_def)

lemma test_expr_0: "test_expr 0 s = None"
  by (simp add: test_expr_def)

lemma test_expr_Suc: "test_expr (Suc k) s = test_expr_body (expr k) s"
  by (simp add: test_expr_def expr_def)

lemma block_0: "block 0 null head s = None"
  by (simp add: block_def)

lemma block_Suc:
  "block (Suc k) null head s =
     block_body (expr k) (test_expr k) (block k) (block_seq k) (decl k) null head s"
  by (simp add: block_def expr_def test_expr_def block_seq_def decl_def)

lemma block_seq_0: "block_seq 0 null head s = None"
  by (simp add: block_seq_def)

lemma block_seq_Suc:
  "block_seq (Suc k) null head s = block_seq_body (block k) (block_seq k) null head s"
  by (simp add: block_def block_seq_def)

lemma decl_0: "decl 0 l s = None"
  by (simp add: decl_def)

lemma decl_Suc: "decl (Suc k) l s = decl_body (block k) (decl k) l s"
  by (simp add: block_def decl_def)

text \<open>The same equations, and those of the loops, as code equations for evaluation.\<close>

lemmas [code] =
  cstring.simps gsym.simps ident_loop.simps define_line.simps comment_star.simps
  comment_body.simps next_tok.simps string_loop.simps decl_vars.simps decl_params.simps
  unary_0 unary_Suc call_args_0 call_args_Suc sum_prec_0 sum_prec_Suc sum_loop_0 sum_loop_Suc
  expr_0 expr_Suc test_expr_0 test_expr_Suc block_0 block_Suc block_seq_0 block_seq_Suc
  decl_0 decl_Suc

section \<open>The code buffer: emission and backpatching\<close>

lemma emitted_Nil: "emitted [] s = s"
  by (simp add: emitted_def)

lemma emitted_Cons: "emitted (b # bs) s = emitted bs (s\<lparr>mem := (mem s)(ind s := b), ind := ind s + 1\<rparr>)"
  by (simp add: emitted_def add.assoc)

lemma o_emit_emitted: "o_emit n s = emitted (o_bytes n) s"
proof (induction n s rule: o_emit.induct)
  case (1 n s)
  show ?case
  proof (cases "n \<noteq> 0 \<and> n \<noteq> -1")
    case True
    then have "o_emit n s = o_emit (drop_bit 8 n) (ob n s)" by (subst o_emit.simps) simp
    also have "\<dots> = emitted (o_bytes (drop_bit 8 n)) (ob n s)" using 1 True by simp
    also have "\<dots> = emitted (o_bytes n) s"
      using True by (subst (2) o_bytes.simps) (simp add: emitted_Cons ob_def store8_def)
    finally show ?thesis .
  next
    case False
    then have "o_emit n s = s" "o_bytes n = []"
      by (subst o_emit.simps, auto)[1] (subst o_bytes.simps, use False in auto)
    then show ?thesis by (simp add: emitted_Nil)
  qed
qed

lemma o_bytes_nth:
  "i < length (o_bytes n) \<Longrightarrow>
     o_bytes n ! i = word_of_int (drop_bit (8 * i) n) \<and> drop_bit (8 * i) n \<noteq> 0 \<and> drop_bit (8 * i) n \<noteq> -1"
proof (induction n arbitrary: i rule: o_bytes.induct)
  case (1 n)
  from "1.prems" have nz: "n \<noteq> 0 \<and> n \<noteq> -1"
    by (subst (asm) o_bytes.simps) (auto split: if_splits)
  then have eq: "o_bytes n = word_of_int n # o_bytes (drop_bit 8 n)"
    by (subst o_bytes.simps) simp
  show ?case
  proof (cases i)
    case 0
    then show ?thesis using nz eq by simp
  next
    case (Suc j)
    then have "j < length (o_bytes (drop_bit 8 n))" using "1.prems" eq by simp
    from "1.IH"[OF nz this] show ?thesis using Suc eq
      by (simp add: drop_bit_drop_bit add.commute)
  qed
qed

lemma o_bytes_stop:
  "drop_bit (8 * length (o_bytes n)) n = 0 \<or> drop_bit (8 * length (o_bytes n)) n = -1"
proof (induction n rule: o_bytes.induct)
  case (1 n)
  show ?case
  proof (cases "n \<noteq> 0 \<and> n \<noteq> -1")
    case True
    then have eq: "o_bytes n = word_of_int n # o_bytes (drop_bit 8 n)"
      by (subst o_bytes.simps) simp
    from "1.IH"[OF True] show ?thesis using eq
      by (simp add: drop_bit_drop_bit add.commute)
  next
    case False
    then have "o_bytes n = []" by (subst o_bytes.simps) auto
    then show ?thesis using False by auto
  qed
qed

lemma o_bytes_small: "1 \<le> n \<Longrightarrow> n \<le> 255 \<Longrightarrow> o_bytes n = [word_of_int n]"
proof -
  assume a: "1 \<le> n" "n \<le> 255"
  then have "drop_bit 8 n = 0" by (simp add: drop_bit_eq_div)
  then show ?thesis using a by (subst o_bytes.simps) (simp add: o_bytes.simps [of 0])
qed

text \<open>
  Claim C10, as amended.  \<^verbatim>\<open>o(n)\<close> writes the bytes of \<open>n\<close> from the lowest on, byte \<open>i\<close>
  being the low byte of \<open>n >> 8 * i\<close>, and stops at the first \<open>i\<close> where \<open>n >> 8 * i\<close> is 0
  or -1, touching nothing but those bytes and the cursor.  For \<open>1 \<le> n \<le> 255\<close> that is
  exactly one byte, \<open>n\<close> itself (so \<^verbatim>\<open>o(255)\<close> writes \<^verbatim>\<open>0xFF\<close>); \<^verbatim>\<open>o(0)\<close> and \<^verbatim>\<open>o(-1)\<close> write
  nothing; \<^verbatim>\<open>ob(n)\<close> always writes exactly one byte, the low byte of \<open>n\<close>, so it is the
  only one of the two that emits a byte for the arguments 0 and -1.
\<close>

theorem o_emit_bytes:
  "o_emit n s = emitted (o_bytes n) s \<and>
   (\<forall>i < length (o_bytes n).
      o_bytes n ! i = word_of_int (drop_bit (8 * i) n) \<and>
      drop_bit (8 * i) n \<noteq> 0 \<and> drop_bit (8 * i) n \<noteq> - 1) \<and>
   (drop_bit (8 * length (o_bytes n)) n = 0 \<or> drop_bit (8 * length (o_bytes n)) n = - 1) \<and>
   (1 \<le> n \<and> n \<le> 255 \<longrightarrow> o_emit n s = emitted [word_of_int n] s) \<and>
   o_emit 0 s = s \<and> o_emit (- 1) s = s \<and>
   ob n s = emitted [word_of_int n] s"
proof -
  have z: "o_bytes 0 = []" "o_bytes (- 1) = []"
    by (subst o_bytes.simps, simp)+
  show ?thesis
    using o_bytes_nth [of _ n] o_bytes_stop [of n]
    by (auto simp add: o_emit_emitted o_bytes_small z emitted_def ob_def store8_def)
qed


theorem o_emit_bytes_witness:
  "o_emit 200 \<lparr>mem = (\<lambda>_. 0), ind = 7, pProgramBase = 0\<rparr> =
     emitted [200] \<lparr>mem = (\<lambda>_. 0), ind = 7, pProgramBase = 0\<rparr> \<and>
   o_bytes 200 ! 0 = 200 \<and> length (o_bytes 200) = 1"
  using o_emit_bytes [of 200 "\<lparr>mem = (\<lambda>_. 0), ind = 7, pProgramBase = 0\<rparr>"]
  by (simp add: o_bytes_small)

text \<open>
  Claim C10 as stated fails in its last part: \<^verbatim>\<open>o\<close> does emit literal \<^verbatim>\<open>0xFF\<close> and \<^verbatim>\<open>0x00\<close>
  bytes.  \<^verbatim>\<open>o(255)\<close> writes the one byte \<^verbatim>\<open>0xFF\<close>, and \<^verbatim>\<open>o(0x100)\<close> writes \<^verbatim>\<open>0x00\<close> and then
  \<^verbatim>\<open>0x01\<close> (into a buffer that held \<^verbatim>\<open>0x55\<close> everywhere).
\<close>

theorem o_emits_ff_and_00_counterexample:
  "mem (o_emit 255 \<lparr>mem = (\<lambda>_. 0x55), ind = 7, pProgramBase = 0\<rparr>) 7 = 0xFF \<and>
   ind (o_emit 255 \<lparr>mem = (\<lambda>_. 0x55), ind = 7, pProgramBase = 0\<rparr>) = 8 \<and>
   mem (o_emit 0x100 \<lparr>mem = (\<lambda>_. 0x55), ind = 7, pProgramBase = 0\<rparr>) 7 = 0x00 \<and>
   mem (o_emit 0x100 \<lparr>mem = (\<lambda>_. 0x55), ind = 7, pProgramBase = 0\<rparr>) 8 = 0x01 \<and>
   ind (o_emit 0x100 \<lparr>mem = (\<lambda>_. 0x55), ind = 7, pProgramBase = 0\<rparr>) = 9"
  by (simp add: o_emit.simps ob_def store8_def)

lemma store32_other: "a < x \<or> x + 4 \<le> a \<Longrightarrow> store32 m x v a = m a"
  by (auto simp add: store32_def)

lemma word32_at_store32_same: "word32_at (store32 m a v) a = word_of_int v"
proof (rule bit_word_eqI)
  fix n :: nat
  assume n: "n < LENGTH(32)"
  have c: "n < 8 \<or> (8 \<le> n \<and> n < 16) \<or> (16 \<le> n \<and> n < 24) \<or> (24 \<le> n \<and> n < 32)"
    using n by simp linarith
  show "bit (word32_at (store32 m a v) a) n = bit (word_of_int v :: 32 word) n"
    using c n unfolding word32_at_def store32_def
    by (auto simp add: bit_simps)
qed

lemma word32_at_store32_other:
  assumes "4 \<le> \<bar>b - a\<bar>"
  shows "word32_at (store32 m a v) b = word32_at m b"
proof -
  have "store32 m a v b = m b" "store32 m a v (b + 1) = m (b + 1)"
    "store32 m a v (b + 2) = m (b + 2)" "store32 m a v (b + 3) = m (b + 3)"
    using assms by (auto intro!: store32_other)
  then show ?thesis by (simp add: word32_at_def)
qed

lemma load32_store32_other: "4 \<le> \<bar>b - a\<bar> \<Longrightarrow> load32 (store32 m a v) b = load32 m b"
  by (simp add: load32_def word32_at_store32_other)

lemma load32_store32_same:
  "- (2 ^ 31) \<le> v \<Longrightarrow> v < 2 ^ 31 \<Longrightarrow> load32 (store32 m a v) a = v"
  by (simp add: load32_def word32_at_store32_same sint_sbintrunc' signed_take_bit_int_eq_self)

lemma chain_store32: "chain m t xs \<Longrightarrow> \<forall>y \<in> set xs. 4 \<le> \<bar>y - x\<bar> \<Longrightarrow> chain (store32 m x v) t xs"
  by (induction xs arbitrary: t) (auto simp add: load32_store32_other)

lemma gsym_0: "gsym 0 s = Some s"
  by (subst gsym.simps) simp

lemma gsym_step:
  "t \<noteq> 0 \<Longrightarrow> gsym t s = gsym (load32 (mem s) t) (s\<lparr>mem := store32 (mem s) t (ind s - t - 4)\<rparr>)"
  by (subst gsym.simps) simp

lemma gsym_chain:
  "chain (mem s) t xs \<Longrightarrow> apart xs \<Longrightarrow> gsym t s = Some (s\<lparr>mem := patch_all (ind s) (mem s) xs\<rparr>)"
proof (induction xs arbitrary: s t)
  case Nil
  then show ?case by (simp add: gsym_0)
next
  case (Cons x xs)
  let ?s1 = "s\<lparr>mem := store32 (mem s) x (ind s - x - 4)\<rparr>"
  from Cons.prems have t: "t = x" "x \<noteq> 0" and c: "chain (mem s) (load32 (mem s) x) xs"
    and d: "\<forall>y \<in> set xs. 4 \<le> \<bar>y - x\<bar>" and a: "apart xs"
    by auto
  have "chain (mem ?s1) (load32 (mem s) x) xs"
    using chain_store32 [OF c d] by simp
  from Cons.IH [OF this a] show ?case
    using t by (simp add: gsym_step)
qed

lemma patch_all_other: "\<forall>x \<in> set xs. a < x \<or> x + 4 \<le> a \<Longrightarrow> patch_all pc m xs a = m a"
  by (induction xs arbitrary: m) (auto simp add: store32_other)

lemma patch_all_word_other:
  "\<forall>x \<in> set xs. 4 \<le> \<bar>x - b\<bar> \<Longrightarrow> word32_at (patch_all pc m xs) b = word32_at m b"
proof (induction xs arbitrary: m)
  case Nil
  then show ?case by simp
next
  case (Cons x xs)
  then have "4 \<le> \<bar>b - x\<bar>" by auto
  with Cons show ?case by (simp add: word32_at_store32_other)
qed

lemma patch_all_site:
  "apart xs \<Longrightarrow> x \<in> set xs \<Longrightarrow> word32_at (patch_all pc m xs) x = word_of_int (pc - x - 4)"
proof (induction xs arbitrary: m)
  case Nil
  then show ?case by simp
next
  case (Cons y ys)
  show ?case
  proof (cases "x = y")
    case True
    with Cons.prems show ?thesis
      by (simp add: patch_all_word_other word32_at_store32_same)
  next
    case False
    with Cons show ?thesis by simp
  qed
qed

text \<open>
  Claim C1.  For a backpatch chain \<open>xs\<close> threaded from \<open>t\<close> through the output bytes, with no
  two sites overlapping, \<^verbatim>\<open>gsym(t)\<close> returns; it has stored at every site \<open>x\<close> of the chain
  the displacement \<open>ind - x - 4\<close> (as a 32-bit word) and changed no byte outside the sites, the
  cursor or any other field; the walk goes from each site to the address that site held
  before, and ends at the site that held 0.  The branch at a patched site then targets the
  resolution point exactly: the address after the site plus the stored displacement is \<open>ind\<close>
  in 32-bit arithmetic.
\<close>

theorem gsym_resolves_chain:
  assumes "chain (mem s) t xs" and "apart xs"
  shows "gsym t s = Some (s\<lparr>mem := patch_all (ind s) (mem s) xs\<rparr>) \<and>
         (\<forall>x \<in> set xs.
            word32_at (patch_all (ind s) (mem s) xs) x = word_of_int (ind s - x - 4) \<and>
            word_of_int (x + 4) + word32_at (patch_all (ind s) (mem s) xs) x =
              (word_of_int (ind s) :: 32 word)) \<and>
         (\<forall>a. (\<forall>x \<in> set xs. a < x \<or> x + 4 \<le> a) \<longrightarrow>
            patch_all (ind s) (mem s) xs a = mem s a) \<and>
         chain (patch_all (ind s) (mem s) xs) 0 []"
  using assms by (simp add: gsym_chain patch_all_site patch_all_other)



theorem gsym_resolves_chain_witness:
  "chain ((\<lambda>_. 0)(110 := 0xe9, 111 := 101, 100 := 0xe9)) 111 [111, 101] \<and>
   apart [111, 101] \<and>
   gsym 111 \<lparr>mem = (\<lambda>_. 0)(110 := 0xe9, 111 := 101, 100 := 0xe9), ind = 200, pProgramBase = 100\<rparr> =
     Some \<lparr>mem = patch_all 200 ((\<lambda>_. 0)(110 := 0xe9, 111 := 101, 100 := 0xe9)) [111, 101],
           ind = 200, pProgramBase = 100\<rparr> \<and>
   word32_at (patch_all 200 ((\<lambda>_. 0)(110 := 0xe9, 111 := 101, 100 := 0xe9)) [111, 101]) 111 = 85 \<and>
   word32_at (patch_all 200 ((\<lambda>_. 0)(110 := 0xe9, 111 := 101, 100 := 0xe9)) [111, 101]) 101 = 95 \<and>
   patch_all 200 ((\<lambda>_. 0)(110 := 0xe9, 111 := 101, 100 := 0xe9)) [111, 101] 110 = 0xe9"
proof -
  let ?m = "(\<lambda>_. 0)(110 := 0xe9, 111 := 101, 100 := 0xe9) :: memory"
  let ?s = "\<lparr>mem = ?m, ind = 200, pProgramBase = 100\<rparr>"
  have c: "chain (mem ?s) 111 [111, 101]"
    by (simp add: load32_def word32_at_def)
  have a: "apart [111, 101]"
    by simp
  from gsym_resolves_chain [OF c a] c a show ?thesis
    by simp
qed

section \<open>Capacity\<close>

lemma o_bytes_le4:
  assumes "- (2 ^ 31) \<le> n" and "n < 2 ^ 31"
  shows "length (o_bytes n) \<le> 4"
proof (rule ccontr)
  assume "\<not> length (o_bytes n) \<le> 4"
  then have "4 < length (o_bytes n)" by simp
  from o_bytes_nth [OF this] have "drop_bit 32 n \<noteq> 0" "drop_bit 32 n \<noteq> - 1" by simp_all
  moreover have "n div 2 ^ 32 = 0 \<or> n div 2 ^ 32 = - 1" using assms by (cases "0 \<le> n") (auto simp: div_pos_neg_trivial zdiv_eq_0_iff  intro: div_pos_pos_trivial)
  ultimately show False by (simp add: drop_bit_eq_div)
qed

lemma emitted_fields: "ind (emitted bs s) = ind s + int (length bs)" "pProgramBase (emitted bs s) = pProgramBase s"
  by (simp_all add: emitted_def)

text \<open>
  Claim C3, as amended.  No emission and no append checks a capacity, and none can fail: each
  is a function from states to states.  \<^verbatim>\<open>ob\<close> writes one byte at the cursor and advances it
  by one, \<^verbatim>\<open>o\<close> does so for each of its bytes, \<^verbatim>\<open>oad\<close> writes four more, \<^verbatim>\<open>pdef\<close> writes one
  byte at \<^verbatim>\<open>dstk\<close> and advances it by one; \<^verbatim>\<open>o\<close> writes at most four bytes of a 32-bit
  value.  So the invariant \<open>base \<le> cursor \<le> base + capacity\<close>
  survives an operation exactly when the bytes it writes still fit.
\<close>

theorem emission_is_unchecked:
  "ob n s = emitted [word_of_int n] s \<and>
   o_emit n s = emitted (o_bytes n) s \<and>
   oad n t s = (ind s + int (length (o_bytes n)),
                (o_emit n s)\<lparr>mem := store32 (mem (o_emit n s)) (ind s + int (length (o_bytes n))) t,
                              ind := ind s + int (length (o_bytes n)) + 4\<rparr>) \<and>
   pdef c cs = cs\<lparr>mem := (mem cs)(dstk cs := word_of_int c), dstk := dstk cs + 1\<rparr> \<and>
   (within_capacity s \<longrightarrow>
      (within_capacity (ob n s) \<longleftrightarrow> ind s + 1 \<le> pProgramBase s + ALLOC_SIZE) \<and>
      (within_capacity (o_emit n s) \<longleftrightarrow>
         ind s + int (length (o_bytes n)) \<le> pProgramBase s + ALLOC_SIZE) \<and>
      (within_capacity (snd (oad n t s)) \<longleftrightarrow>
         ind s + int (length (o_bytes n)) + 4 \<le> pProgramBase s + ALLOC_SIZE)) \<and>
   (heap_within_capacity cs \<longrightarrow>
      (heap_within_capacity (pdef c cs) \<longleftrightarrow> dstk cs + 1 \<le> sym_stk cs + ALLOC_SIZE)) \<and>
   (- (2 ^ 31) \<le> n \<and> n < 2 ^ 31 \<longrightarrow> length (o_bytes n) \<le> 4)"
  using o_bytes_le4 [of n]
  by (auto simp add: o_emit_emitted oad_def Let_def within_capacity_def heap_within_capacity_def
        emitted_def ob_def store8_def pdef_def)

theorem emission_is_unchecked_witness:
  "within_capacity \<lparr>mem = (\<lambda>_. 0), ind = 4096, pProgramBase = 4096\<rparr> \<and>
   within_capacity (ob 0x90 \<lparr>mem = (\<lambda>_. 0), ind = 4096, pProgramBase = 4096\<rparr>) \<and>
   heap_within_capacity (compile_init demo_process []) \<and>
   heap_within_capacity (pdef 65 (compile_init demo_process [])) \<and>
   length (o_bytes 0x90) \<le> 4"
proof -
  let ?s = "\<lparr>mem = (\<lambda>_. 0), ind = 4096, pProgramBase = 4096\<rparr>"
  let ?c = "compile_init demo_process []"
  note T = emission_is_unchecked [where n = "0x90" and s = ?s and t = 0 and c = 65 and cs = ?c]
  have w: "within_capacity ?s"
    by (simp add: within_capacity_def ALLOC_SIZE_def)
  have h: "heap_within_capacity ?c" "dstk ?c + 1 \<le> sym_stk ?c + ALLOC_SIZE"
    by (simp_all add: heap_within_capacity_def compile_init_def demo_process_def Let_def
          init_codebuf_def ALLOC_SIZE_def TOK_STR_SIZE_def)
  have "ind ?s + 1 \<le> pProgramBase ?s + ALLOC_SIZE"
    by (simp add: ALLOC_SIZE_def)
  with T w have 1: "within_capacity (ob 0x90 ?s)"
    by blast
  from T h have 2: "heap_within_capacity (pdef 65 ?c)"
    by blast
  have "- (2 ^ 31) \<le> (0x90 :: int) \<and> (0x90 :: int) < 2 ^ 31"
    by simp
  with T have 3: "length (o_bytes 0x90) \<le> 4"
    by blast
  from w 1 h(1) 2 3 show ?thesis
    by blast
qed

text \<open>
  Claim C3 as stated fails: with the cursor at \<open>base + capacity\<close> the invariant holds, and
  \<^verbatim>\<open>ob(0x90)\<close> and \<^verbatim>\<open>o(0xc139)\<close> still write, past the end of the buffer, and leave the cursor
  beyond \<open>base + capacity\<close>; \<^verbatim>\<open>pdef\<close> does the same to the symbol heap.  No error is raised.
\<close>

theorem emission_overruns_counterexample:
  "within_capacity \<lparr>mem = (\<lambda>_. 0), ind = 4096 + 99999, pProgramBase = 4096\<rparr> \<and>
   \<not> within_capacity (ob 0x90 \<lparr>mem = (\<lambda>_. 0), ind = 4096 + 99999, pProgramBase = 4096\<rparr>) \<and>
   mem (ob 0x90 \<lparr>mem = (\<lambda>_. 0), ind = 4096 + 99999, pProgramBase = 4096\<rparr>) (4096 + 99999) = 0x90 \<and>
   \<not> within_capacity (o_emit 0xc139 \<lparr>mem = (\<lambda>_. 0), ind = 4096 + 99999, pProgramBase = 4096\<rparr>) \<and>
   mem (o_emit 0xc139 \<lparr>mem = (\<lambda>_. 0), ind = 4096 + 99999, pProgramBase = 4096\<rparr>) (4096 + 100000) = 0xc1 \<and>
   heap_within_capacity ((compile_init demo_process [])\<lparr>dstk := 0x100000 + 99999\<rparr>) \<and>
   \<not> heap_within_capacity (pdef 65 ((compile_init demo_process [])\<lparr>dstk := 0x100000 + 99999\<rparr>)) \<and>
   mem (pdef 65 ((compile_init demo_process [])\<lparr>dstk := 0x100000 + 99999\<rparr>)) (0x100000 + 99999) = 65"
  by (simp add: within_capacity_def ALLOC_SIZE_def ob_def store8_def o_emit.simps
        heap_within_capacity_def pdef_def compile_init_def demo_process_def Let_def
        init_codebuf_def)

section \<open>Exit codes\<close>

lemma args_loop_Inl:
  "args_loop argv i doTest inFile outFile = Inl e \<Longrightarrow>
     e = \<lparr>status = 2, stderr = [Expected_filename_after_T], written = None\<rparr> \<or>
     (\<exists>arg. e = \<lparr>status = 3, stderr = [Unrecognized_flag arg], written = None\<rparr>)"
proof (induction argv i doTest inFile outFile rule: args_loop.induct)
  case (1 argv i doTest inFile outFile)
  note IH = "1.IH" [simplified]
  from "1.prems" show ?case
    by (subst (asm) args_loop.simps) (auto split: if_splits dest: IH)
qed

lemma exits_1_None: "exits_1 None" by (simp add: exits_1_def)
lemma exits_1_returns: "exits_1 (returns x)" by (simp add: exits_1_def returns_def)
lemma exits_1_lexed: "exits_1 (lexed r)" by (cases r) (simp_all add: exits_1_def lexed_def)
lemma exits_1_skip: "exits_1 (skip c s)" by (simp add: skip_def exits_1_lexed) (simp add: exits_1_def error_def)
lemma exits_1_and_then:
  assumes "exits_1 r" and "\<And>x. exits_1 (f x)"
  shows "exits_1 (and_then r f)"
proof (cases r)
  case None
  then show ?thesis by (simp add: exits_1_def)
next
  case (Some v)
  show ?thesis
  proof (cases v)
    case (Inl e)
    with Some assms(1) show ?thesis by (simp add: exits_1_def)
  next
    case (Inr x)
    with Some assms(2) [of x] show ?thesis by simp
  qed
qed
lemma exits_1_if: "(c \<Longrightarrow> exits_1 a) \<Longrightarrow> (\<not> c \<Longrightarrow> exits_1 b) \<Longrightarrow> exits_1 (if c then a else b)"
  by simp
lemma exits_1_prod: "(\<And>a b. exits_1 (f a b)) \<Longrightarrow> exits_1 (case p of (a, b) \<Rightarrow> f a b)"
  by (cases p) simp
lemma exits_1_let: "(\<And>x. exits_1 (f x)) \<Longrightarrow> exits_1 (Let v f)"
  by (simp add: Let_def)

lemmas exits_1_intros = exits_1_None exits_1_returns exits_1_lexed exits_1_skip exits_1_and_then exits_1_if exits_1_prod exits_1_let

lemma exits_1_cast_type: "exits_1 (cast_type s)"
  unfolding cast_type_def by (intro exits_1_intros)

lemma exits_1_unary_body:
  "(\<And>l s. exits_1 (u l s)) \<Longrightarrow> (\<And>s. exits_1 (e s)) \<Longrightarrow> (\<And>l s. exits_1 (c l s)) \<Longrightarrow> exits_1 (unary_body u e c l s)"
  unfolding unary_body_def by (intro exits_1_intros exits_1_cast_type; assumption?)

lemma exits_1_call_args_body:
  "(\<And>s. exits_1 (e s)) \<Longrightarrow> (\<And>l s. exits_1 (c l s)) \<Longrightarrow> exits_1 (call_args_body e c l s)"
  unfolding call_args_body_def by (intro exits_1_intros; assumption?)

lemma exits_1_sum_body:
  "(\<And>l s. exits_1 (u l s)) \<Longrightarrow> (\<And>l s. exits_1 (sm l s)) \<Longrightarrow> (\<And>l a t s. exits_1 (sl l a t s)) \<Longrightarrow> exits_1 (sum_body u sm sl l s)"
  unfolding sum_body_def by (intro exits_1_intros; assumption?)

lemma exits_1_sum_loop_body:
  "(\<And>l s. exits_1 (sm l s)) \<Longrightarrow> (\<And>l a t s. exits_1 (sl l a t s)) \<Longrightarrow> exits_1 (sum_loop_body sm sl l a t s)"
  unfolding sum_loop_body_def by (intro exits_1_intros; assumption?)

lemma exits_1_test_expr_body:
  "(\<And>s. exits_1 (e s)) \<Longrightarrow> exits_1 (test_expr_body e s)"
  unfolding test_expr_body_def by (intro exits_1_intros; assumption?)

lemma exits_1_block_body:
  "(\<And>s. exits_1 (e s)) \<Longrightarrow> (\<And>s. exits_1 (te s)) \<Longrightarrow> (\<And>n h s. exits_1 (b n h s)) \<Longrightarrow> (\<And>n h s. exits_1 (bs n h s)) \<Longrightarrow> (\<And>l s. exits_1 (d l s))
   \<Longrightarrow> exits_1 (block_body e te b bs d null head s)"
  unfolding block_body_def by (intro exits_1_intros; assumption?)

lemma exits_1_block_seq_body:
  "(\<And>n h s. exits_1 (b n h s)) \<Longrightarrow> (\<And>n h s. exits_1 (bs n h s)) \<Longrightarrow> exits_1 (block_seq_body b bs null head s)"
  unfolding block_seq_body_def by (intro exits_1_intros; assumption?)

lemma exits_1_decl_body:
  "(\<And>n h s. exits_1 (b n h s)) \<Longrightarrow> (\<And>l s. exits_1 (d l s)) \<Longrightarrow> exits_1 (decl_body b d l s)"
  unfolding decl_body_def by (intro exits_1_intros; assumption?)

lemma exits_1_parser:
  "(\<forall>l s. exits_1 (unary k l s)) \<and> (\<forall>l s. exits_1 (call_args k l s)) \<and>
   (\<forall>l s. exits_1 (sum_prec k l s)) \<and> (\<forall>l a t s. exits_1 (sum_loop k l a t s)) \<and>
   (\<forall>s. exits_1 (expr k s)) \<and> (\<forall>s. exits_1 (test_expr k s)) \<and>
   (\<forall>n h s. exits_1 (block k n h s)) \<and> (\<forall>n h s. exits_1 (block_seq k n h s)) \<and>
   (\<forall>l s. exits_1 (decl k l s))"
proof (induction k)
  case 0
  show ?case
    by (simp add: unary_0 call_args_0 sum_prec_0 sum_loop_0 expr_0 test_expr_0 block_0
          block_seq_0 decl_0 exits_1_None)
next
  case (Suc k)
  then show ?case
    by (simp add: unary_Suc call_args_Suc sum_prec_Suc sum_loop_Suc expr_Suc test_expr_Suc
          block_Suc block_seq_Suc decl_Suc exits_1_unary_body exits_1_call_args_body
          exits_1_sum_body exits_1_sum_loop_body exits_1_test_expr_body exits_1_block_body
          exits_1_block_seq_body exits_1_decl_body)
qed

lemma exits_1_compile: "exits_1 (compile k p input)"
  unfolding compile_def using exits_1_parser [of k]
  by (intro exits_1_intros) simp_all

text \<open>
  Claim C9.  Whenever \<^verbatim>\<open>compile\<close> returns, it returns 0; when it fails, the process has ended
  in \<^verbatim>\<open>error\<close> with exit code 1; so \<^verbatim>\<open>main\<close> never takes its branch for a nonzero result of
  \<^verbatim>\<open>compile\<close>: it never prints \<^verbatim>\<open>Compile failed\<close>.
\<close>

theorem compile_returns_0:
  "(compile k p input = Some (Inr (r, s)) \<longrightarrow> r = 0) \<and>
   (compile k p input = Some (Inl e) \<longrightarrow> e = Fatal 1 (offset e) (expected e)) \<and>
   (main k os argv = Some x \<longrightarrow> Compile_failed c \<notin> set (stderr x))"
proof (intro conjI impI)
  assume "compile k p input = Some (Inr (r, s))"
  then show "r = 0"
    by (auto simp add: compile_def returns_def split: bind_splits sum.splits)
next
  assume "compile k p input = Some (Inl e)"
  with exits_1_compile [of k p input] show "e = Fatal 1 (offset e) (expected e)"
    by (cases e) (simp add: exits_1_def)
next
  have r0: "\<And>q i r s. compile k q i = Some (Inr (r, s)) \<Longrightarrow> r = 0"
    by (auto simp add: compile_def returns_def split: bind_splits sum.splits)
  assume "main k os argv = Some x"
  then show "Compile_failed c \<notin> set (stderr x)"
    by (auto simp add: main_def run_def Let_def dest!: r0 args_loop_Inl
          split: sum.splits option.splits if_splits prod.splits)
qed

end
